theory Spec2Isabelle
  imports Main "HOL-Library.Multiset" "HOL-Library.Product_Lexorder" "HOL-Library.Option_ord"
begin

section \<open>Values, exceptions and responses\<close>

text \<open>
  The backend of \<^verbatim>\<open>app.py\<close> reads JSON request bodies and answers with JSON.
  A parsed JSON value is one of Python's \<^verbatim>\<open>None\<close>, \<^verbatim>\<open>bool\<close>, \<^verbatim>\<open>int\<close>, \<^verbatim>\<open>str\<close>,
  \<^verbatim>\<open>list\<close> and \<^verbatim>\<open>dict\<close>. A dict is given by its association list, and a lookup takes
  the first binding of a key. Numbers with a fractional part are not represented: the
  model has no floating-point values. Strings are lists of 8-bit characters and stand
  for ASCII text; the one character beyond ASCII that the program writes itself, the
  rupee sign, is written as its three UTF-8 bytes.
\<close>

datatype json =
    JNull
  | JBool bool
  | JInt int
  | JStr string
  | JArr "json list"
  | JObj "(string \<times> json) list"

text \<open>
  The exceptions of the modelled paths. \<open>StoreError\<close> is any exception the database
  layer raises when a statement is refused.
\<close>

datatype exn = TypeError | ValueError | KeyError | AttributeError | StoreError

definition bind_exn :: "exn + 'a \<Rightarrow> ('a \<Rightarrow> exn + 'b) \<Rightarrow> exn + 'b" where
  "bind_exn m f = (case m of Inl e \<Rightarrow> Inl e | Inr x \<Rightarrow> f x)"

text \<open>
  A response is a status code with a JSON body. The handlers' \<^verbatim>\<open>except Exception\<close>
  branches answer 500 with \<^verbatim>\<open>{'message': m, 'error': str(e)}\<close>; the text of \<^verbatim>\<open>str(e)\<close>
  belongs to the libraries, so that body is kept as the message and the exception.
\<close>

datatype response = Response nat json | Failure nat string exn

fun status_code :: "response \<Rightarrow> nat" where
  "status_code (Response c b) = c"
| "status_code (Failure c m e) = c"

definition is_client_error :: "nat \<Rightarrow> bool" where
  "is_client_error c = (400 \<le> c \<and> c < 500)"

subsection \<open>Python operations on request values\<close>

fun starts_with :: "string \<Rightarrow> string \<Rightarrow> bool" where
  "starts_with s [] = True"
| "starts_with [] (p # ps) = False"
| "starts_with (c # cs) (p # ps) = (c = p \<and> starts_with cs ps)"

fun str_contains :: "string \<Rightarrow> string \<Rightarrow> bool" where
  "str_contains [] f = (f = [])"
| "str_contains (c # cs) f = (starts_with (c # cs) f \<or> str_contains cs f)"

text \<open>
  \<^verbatim>\<open>field in data\<close>: a key test on a dict, a membership test on a list, a substring
  test on a string, and a \<^verbatim>\<open>TypeError\<close> on \<^verbatim>\<open>None\<close>, a bool or an int.
\<close>

fun py_contains :: "json \<Rightarrow> string \<Rightarrow> exn + bool" where
  "py_contains (JObj kvs) f = Inr (f \<in> set (map fst kvs))"
| "py_contains (JArr xs) f = Inr (JStr f \<in> set xs)"
| "py_contains (JStr s) f = Inr (str_contains s f)"
| "py_contains JNull f = Inl TypeError"
| "py_contains (JBool b) f = Inl TypeError"
| "py_contains (JInt n) f = Inl TypeError"

text \<open>The values on which \<^verbatim>\<open>in\<close> is defined: a dict, a list and a string.\<close>

fun is_container :: "json \<Rightarrow> bool" where
  "is_container (JObj kvs) = True"
| "is_container (JArr xs) = True"
| "is_container (JStr s) = True"
| "is_container v = False"

text \<open>\<^verbatim>\<open>data[field]\<close> with a string subscript.\<close>

fun py_getitem :: "json \<Rightarrow> string \<Rightarrow> exn + json" where
  "py_getitem (JObj kvs) f = (case map_of kvs f of None \<Rightarrow> Inl KeyError | Some v \<Rightarrow> Inr v)"
| "py_getitem d f = Inl TypeError"

text \<open>\<^verbatim>\<open>data.get(field, default)\<close>.\<close>

fun py_get :: "json \<Rightarrow> string \<Rightarrow> json \<Rightarrow> exn + json" where
  "py_get (JObj kvs) f d = Inr (case map_of kvs f of None \<Rightarrow> d | Some v \<Rightarrow> v)"
| "py_get x f d = Inl AttributeError"

text \<open>
  \<^verbatim>\<open>base_price * persons\<close> with an int on the left: a product for an int or a bool,
  a repetition for a string or a list, a \<^verbatim>\<open>TypeError\<close> for \<^verbatim>\<open>None\<close> and a dict.
\<close>

fun py_int_mul :: "int \<Rightarrow> json \<Rightarrow> exn + json" where
  "py_int_mul b (JInt n) = Inr (JInt (b * n))"
| "py_int_mul b (JBool t) = Inr (JInt (b * (if t then 1 else 0)))"
| "py_int_mul b (JStr s) = Inr (JStr (concat (replicate (nat b) s)))"
| "py_int_mul b (JArr xs) = Inr (JArr (concat (replicate (nat b) xs)))"
| "py_int_mul b JNull = Inl TypeError"
| "py_int_mul b (JObj kvs) = Inl TypeError"

section \<open>Pricing\<close>

definition package_prices :: "(string \<times> int) list" where
  "package_prices =
     [(''Sacred Darshan'', 19500), (''Divine Journey'', 32500), (''Celestial Expedition'', 58000)]"

text \<open>
  \<^verbatim>\<open>package_prices.get(package, 19500)\<close>: the keys are strings, any other hashable
  value finds nothing, a list or a dict is unhashable.
\<close>

fun prices_get :: "json \<Rightarrow> int \<Rightarrow> exn + int" where
  "prices_get (JStr s) d = Inr (case map_of package_prices s of None \<Rightarrow> d | Some p \<Rightarrow> p)"
| "prices_get (JArr xs) d = Inl TypeError"
| "prices_get (JObj kvs) d = Inl TypeError"
| "prices_get k d = Inr d"

definition calculate_package_amount :: "json \<Rightarrow> json \<Rightarrow> exn + json" where
  "calculate_package_amount package persons =
     bind_exn (prices_get package 19500) (\<lambda>base_price. py_int_mul base_price persons)"

text \<open>The price table in the words of the specification.\<close>

definition spec_unit_price :: "string \<Rightarrow> int" where
  "spec_unit_price p =
     (if p = ''Sacred Darshan'' then 19500
      else if p = ''Divine Journey'' then 32500
      else if p = ''Celestial Expedition'' then 58000
      else 19500)"

section \<open>Dates, the clock and the random source\<close>

datatype date = Date (year: nat) (month: nat) (day: nat)

datatype datetime =
  Datetime (date_of: date) (hour: nat) (minute: nat) (second: nat) (microsecond: nat)

text \<open>
  What a request reads from outside the program: \<^verbatim>\<open>datetime.now()\<close>,
  \<^verbatim>\<open>datetime.utcnow()\<close>, and the random source, whose \<open>i\<close>-th draw selects the element
  \<open>rand i mod n\<close> of a population of \<open>n\<close> elements.
\<close>

record env =
  now :: datetime
  utcnow :: datetime
  rand :: "nat \<Rightarrow> nat"


definition date_key :: "date \<Rightarrow> nat \<times> nat \<times> nat" where
  "date_key d = (year d, month d, day d)"

definition datetime_key :: "datetime \<Rightarrow> (nat \<times> nat \<times> nat) \<times> nat \<times> nat \<times> nat \<times> nat" where
  "datetime_key t = (date_key (date_of t), hour t, minute t, second t, microsecond t)"

subsection \<open>Decimal formatting\<close>

text \<open>Python's \<^verbatim>\<open>string.digits\<close>.\<close>

definition string_digits :: string where
  "string_digits = ''0123456789''"

fun dec :: "nat \<Rightarrow> string" where
  "dec n = (if n < 10 then [string_digits ! n] else dec (n div 10) @ [string_digits ! (n mod 10)])"

declare dec.simps [simp del]

text \<open>\<^verbatim>\<open>'%0wd' % n\<close> for a natural number, as \<^verbatim>\<open>strftime\<close> and \<^verbatim>\<open>isoformat\<close> use it.\<close>

definition zero_pad :: "nat \<Rightarrow> nat \<Rightarrow> string" where
  "zero_pad w n = replicate (w - length (dec n)) (CHR ''0'') @ dec n"

text \<open>\<^verbatim>\<open>strftime('%H%M')\<close>.\<close>

definition strftime_HM :: "datetime \<Rightarrow> string" where
  "strftime_HM t = zero_pad 2 (hour t) @ zero_pad 2 (minute t)"

definition date_isoformat :: "date \<Rightarrow> string" where
  "date_isoformat d = zero_pad 4 (year d) @ ''-'' @ zero_pad 2 (month d) @ ''-'' @ zero_pad 2 (day d)"

definition datetime_isoformat :: "datetime \<Rightarrow> string" where
  "datetime_isoformat t =
     date_isoformat (date_of t) @ ''T'' @ zero_pad 2 (hour t) @ '':'' @ zero_pad 2 (minute t)
       @ '':'' @ zero_pad 2 (second t)
       @ (if microsecond t = 0 then [] else ''.'' @ zero_pad 6 (microsecond t))"

subsection \<open>Booking identifiers\<close>

text \<open>\<^verbatim>\<open>random.choices(population, k=k)\<close>, joined into a string.\<close>

definition random_choices :: "env \<Rightarrow> string \<Rightarrow> nat \<Rightarrow> string" where
  "random_choices e population k =
     map (\<lambda>i. population ! (rand e i mod length population)) [0..<k]"

definition generate_booking_id :: "env \<Rightarrow> string" where
  "generate_booking_id e =
     (let prefix = ''KDR'';
          random_digits = random_choices e string_digits 8;
          timestamp = strftime_HM (now e)
      in prefix @ timestamp @ random_digits)"

subsection \<open>Parsing a date\<close>

text \<open>
  \<^verbatim>\<open>datetime.strptime(s, '%Y-%m-%d').date()\<close>. CPython turns the format into the
  regular expression
  \<^verbatim>\<open>(?P<Y>\d\d\d\d)-(?P<m>1[0-2]|0[1-9]|[1-9])-(?P<d>3[0-1]|[1-2]\d|0[1-9]|[1-9]| [1-9])\<close>,
  matches it at the start of the string (the alternatives in their order, backtracking
  into the month), raises \<^verbatim>\<open>ValueError\<close> when nothing matches or when text remains
  after the match, and raises \<^verbatim>\<open>ValueError\<close> again when the three numbers are not a
  calendar date. A value that is not a string is a \<^verbatim>\<open>TypeError\<close>.
\<close>

definition is_digit :: "char \<Rightarrow> bool" where
  "is_digit c = (c \<in> set string_digits)"

definition digit_val :: "char \<Rightarrow> nat" where
  "digit_val c = of_char c - 48"

fun match_year :: "string \<Rightarrow> (nat \<times> string) option" where
  "match_year (a # b # c # d # r) =
     (if is_digit a \<and> is_digit b \<and> is_digit c \<and> is_digit d
      then Some (1000 * digit_val a + 100 * digit_val b + 10 * digit_val c + digit_val d, r)
      else None)"
| "match_year s = None"

fun match_dash :: "string \<Rightarrow> string option" where
  "match_dash (c # r) = (if c = CHR ''-'' then Some r else None)"
| "match_dash [] = None"

definition two_chars :: "string \<Rightarrow> string \<Rightarrow> string \<Rightarrow> (nat \<times> string) list" where
  "two_chars first snd_set s =
     (case s of
        a # b # r \<Rightarrow>
          if a \<in> set first \<and> b \<in> set snd_set then [(10 * digit_val a + digit_val b, r)] else []
      | _ \<Rightarrow> [])"

definition one_char :: "string \<Rightarrow> (nat \<times> string) list" where
  "one_char s =
     (case s of a # r \<Rightarrow> if a \<in> set ''123456789'' then [(digit_val a, r)] else [] | [] \<Rightarrow> [])"

definition month_alts :: "string \<Rightarrow> (nat \<times> string) list" where
  "month_alts s = two_chars ''1'' ''012'' s @ two_chars ''0'' ''123456789'' s @ one_char s"

definition day_alts :: "string \<Rightarrow> (nat \<times> string) list" where
  "day_alts s =
     two_chars ''3'' ''01'' s @ two_chars ''12'' string_digits s
       @ two_chars ''0'' ''123456789'' s @ one_char s
       @ (case s of a # r \<Rightarrow> if a = CHR '' '' then one_char r else [] | [] \<Rightarrow> [])"

fun first_some :: "('a \<Rightarrow> 'b option) \<Rightarrow> 'a list \<Rightarrow> 'b option" where
  "first_some f [] = None"
| "first_some f (x # xs) = (case f x of Some y \<Rightarrow> Some y | None \<Rightarrow> first_some f xs)"

definition match_ymd :: "string \<Rightarrow> (nat \<times> nat \<times> nat \<times> string) option" where
  "match_ymd s =
     (case match_year s of
        None \<Rightarrow> None
      | Some (y, r1) \<Rightarrow>
          (case match_dash r1 of
             None \<Rightarrow> None
           | Some r2 \<Rightarrow>
               first_some
                 (\<lambda>(m, r3).
                    case match_dash r3 of
                      None \<Rightarrow> None
                    | Some r4 \<Rightarrow>
                        (case day_alts r4 of [] \<Rightarrow> None | (d, rest) # _ \<Rightarrow> Some (y, m, d, rest)))
                 (month_alts r2)))"

definition is_leap :: "nat \<Rightarrow> bool" where
  "is_leap y = (y mod 4 = 0 \<and> (y mod 100 \<noteq> 0 \<or> y mod 400 = 0))"

definition days_in_month :: "nat \<Rightarrow> nat \<Rightarrow> nat" where
  "days_in_month y m =
     (if m = 2 then (if is_leap y then 29 else 28)
      else if m = 4 \<or> m = 6 \<or> m = 9 \<or> m = 11 then 30 else 31)"

fun strptime_ymd :: "json \<Rightarrow> exn + date" where
  "strptime_ymd (JStr s) =
     (case match_ymd s of
        None \<Rightarrow> Inl ValueError
      | Some (y, m, d, rest) \<Rightarrow>
          if rest \<noteq> [] then Inl ValueError
          else if y < 1 \<or> days_in_month y m < d then Inl ValueError
          else Inr (Date y m d))"
| "strptime_ymd v = Inl TypeError"

section \<open>The bookings table\<close>

text \<open>
  A row of the model class \<^verbatim>\<open>Booking\<close>, with the columns' types: \<open>id_pk\<close> is the
  primary key \<^verbatim>\<open>id\<close>; the columns declared \<^verbatim>\<open>nullable=False\<close> always hold a value,
  the others may hold \<^verbatim>\<open>NULL\<close>. The \<^verbatim>\<open>Float\<close> column \<open>amount\<close> only ever receives
  integers here (a price times an integer), which a double holds exactly below \<open>2^53\<close>;
  the model keeps the integer.
\<close>

record booking =
  id_pk :: nat
  name :: string
  email :: string
  phone :: string
  package :: string
  persons :: int
  date :: date
  status :: "string option"
  booking_id :: "string option"
  amount :: "int option"
  created_at :: "datetime option"
  special_requests :: "string option"

type_synonym store = "booking list"

definition opt_json :: "('a \<Rightarrow> json) \<Rightarrow> 'a option \<Rightarrow> json" where
  "opt_json f x = (case x of None \<Rightarrow> JNull | Some v \<Rightarrow> f v)"

definition to_dict :: "booking \<Rightarrow> json" where
  "to_dict b =
     JObj [(''id'', JInt (int (id_pk b))),
           (''name'', JStr (name b)),
           (''email'', JStr (email b)),
           (''phone'', JStr (phone b)),
           (''package'', JStr (package b)),
           (''persons'', JInt (persons b)),
           (''date'', JStr (date_isoformat (date b))),
           (''status'', opt_json JStr (status b)),
           (''booking_id'', opt_json JStr (booking_id b)),
           (''amount'', opt_json JInt (amount b)),
           (''created_at'', opt_json (\<lambda>t. JStr (datetime_isoformat t)) (created_at b)),
           (''special_requests'', opt_json JStr (special_requests b))]"

subsection \<open>Writing to the table\<close>

text \<open>
  The store is the relational table the schema declares, kept as the list of its rows
  in insertion order. It is typed: a column takes a value of its own type, \<^verbatim>\<open>NULL\<close>
  only where the column is nullable, and refuses anything else with a \<open>StoreError\<close>
  (what a lenient backend would coerce instead is outside the model). Declared lengths
  are not enforced, as with the default SQLite database. \<open>booking_id\<close> is declared
  \<^verbatim>\<open>unique=True\<close>: a second row with the same identifier is refused.
\<close>

fun col_string :: "json \<Rightarrow> exn + string" where
  "col_string (JStr s) = Inr s"
| "col_string v = Inl StoreError"

fun col_string_null :: "json \<Rightarrow> exn + string option" where
  "col_string_null (JStr s) = Inr (Some s)"
| "col_string_null JNull = Inr None"
| "col_string_null v = Inl StoreError"

fun col_integer :: "json \<Rightarrow> exn + int" where
  "col_integer (JInt n) = Inr n"
| "col_integer v = Inl StoreError"

fun col_float_null :: "json \<Rightarrow> exn + int option" where
  "col_float_null (JInt n) = Inr (Some n)"
| "col_float_null JNull = Inr None"
| "col_float_null v = Inl StoreError"

text \<open>The \<^verbatim>\<open>Booking(...)\<close> object of \<open>create_booking\<close>, before it is flushed.\<close>

record booking_obj =
  o_name :: json
  o_email :: json
  o_phone :: json
  o_package :: json
  o_persons :: json
  o_date :: date
  o_booking_id :: string
  o_amount :: json
  o_special_requests :: json

definition next_id :: "store \<Rightarrow> nat" where
  "next_id store = Suc (fold max (map id_pk store) 0)"

text \<open>
  \<^verbatim>\<open>db.session.add(booking); db.session.commit()\<close>: the insert fills the primary key,
  the defaults \<^verbatim>\<open>status='PENDING'\<close> and \<^verbatim>\<open>created_at=datetime.utcnow()\<close>, and checks the
  constraints. The result is the stored row and the new table.
\<close>

definition db_add_commit :: "env \<Rightarrow> store \<Rightarrow> booking_obj \<Rightarrow> exn + (booking \<times> store)" where
  "db_add_commit e store obj =
     bind_exn (col_string (o_name obj)) (\<lambda>c_name.
     bind_exn (col_string (o_email obj)) (\<lambda>c_email.
     bind_exn (col_string (o_phone obj)) (\<lambda>c_phone.
     bind_exn (col_string (o_package obj)) (\<lambda>c_package.
     bind_exn (col_integer (o_persons obj)) (\<lambda>c_persons.
     bind_exn (col_float_null (o_amount obj)) (\<lambda>c_amount.
     bind_exn (col_string_null (o_special_requests obj)) (\<lambda>c_special.
       if Some (o_booking_id obj) \<in> set (map booking_id store) then Inl StoreError
       else
         let row = \<lparr>id_pk = next_id store, name = c_name, email = c_email, phone = c_phone,
                     package = c_package, persons = c_persons, date = o_date obj,
                     status = Some ''PENDING'', booking_id = Some (o_booking_id obj),
                     amount = c_amount, created_at = Some (utcnow e),
                     special_requests = c_special\<rparr>
         in Inr (row, store @ [row]))))))))"



section \<open>The handlers\<close>

subsection \<open>POST /api/bookings\<close>

definition required_fields :: "string list" where
  "required_fields = [''name'', ''email'', ''phone'', ''package'', ''date'', ''persons'']"

text \<open>
  The loop over the required fields: the first field that is not in the body, if any;
  the membership test itself raises on a body that is no container.
\<close>

fun check_required :: "json \<Rightarrow> string list \<Rightarrow> exn + string option" where
  "check_required data [] = Inr None"
| "check_required data (field # rest) =
     (case py_contains data field of
        Inl e \<Rightarrow> Inl e
      | Inr present \<Rightarrow> if \<not> present then Inr (Some field) else check_required data rest)"

text \<open>The arguments of \<^verbatim>\<open>Booking(...)\<close>, evaluated in the order they are written.\<close>

definition make_booking :: "env \<Rightarrow> json \<Rightarrow> exn + booking_obj" where
  "make_booking e data =
     bind_exn (py_getitem data ''name'') (\<lambda>v_name.
     bind_exn (py_getitem data ''email'') (\<lambda>v_email.
     bind_exn (py_getitem data ''phone'') (\<lambda>v_phone.
     bind_exn (py_getitem data ''package'') (\<lambda>v_package.
     bind_exn (py_getitem data ''persons'') (\<lambda>v_persons.
     bind_exn (bind_exn (py_getitem data ''date'') strptime_ymd) (\<lambda>v_date.
     let v_booking_id = generate_booking_id e in
     bind_exn (bind_exn (py_getitem data ''package'') (\<lambda>p.
               bind_exn (py_getitem data ''persons'') (\<lambda>k.
               calculate_package_amount p k))) (\<lambda>v_amount.
     bind_exn (py_get data ''special_requests'' (JStr [])) (\<lambda>v_special.
       Inr \<lparr>o_name = v_name, o_email = v_email, o_phone = v_phone, o_package = v_package,
            o_persons = v_persons, o_date = v_date, o_booking_id = v_booking_id,
            o_amount = v_amount, o_special_requests = v_special\<rparr>))))))))"

text \<open>
  The handler returns the response and the table after the request. An exception
  anywhere in the \<^verbatim>\<open>try\<close> block rolls the session back: the table is the one before.
\<close>

definition create_booking :: "env \<Rightarrow> store \<Rightarrow> json \<Rightarrow> response \<times> store" where
  "create_booking e store data =
     (case check_required data required_fields of
        Inl ex \<Rightarrow> (Failure 500 ''Error creating booking'' ex, store)
      | Inr (Some field) \<Rightarrow>
          (Response 400 (JObj [(''message'', JStr (''Missing required field: '' @ field))]), store)
      | Inr None \<Rightarrow>
          (case bind_exn (make_booking e data) (db_add_commit e store) of
             Inl ex \<Rightarrow> (Failure 500 ''Error creating booking'' ex, store)
           | Inr (b, store') \<Rightarrow>
               (Response 201
                  (JObj [(''message'', JStr ''Booking created successfully''),
                         (''booking_id'', opt_json JStr (booking_id b)),
                         (''booking'', to_dict b)]),
                store')))"

subsection \<open>PUT /api/bookings/<int:id>\<close>


subsection \<open>GET /api/bookings\<close>

text \<open>
  \<^verbatim>\<open>ORDER BY created_at DESC\<close>: rows with a later \<open>created_at\<close> come first and \<^verbatim>\<open>NULL\<close>
  comes last, as SQLite orders it. SQL leaves the order of rows with equal keys open;
  the model keeps them in insertion order.
\<close>

definition created_key :: "booking \<Rightarrow> ((nat \<times> nat \<times> nat) \<times> nat \<times> nat \<times> nat \<times> nat) option" where
  "created_key b = map_option datetime_key (created_at b)"

fun insert_desc :: "booking \<Rightarrow> booking list \<Rightarrow> booking list" where
  "insert_desc b [] = [b]"
| "insert_desc b (x # xs) =
     (if created_key x \<le> created_key b then b # x # xs else x # insert_desc b xs)"

fun order_by_created_at_desc :: "store \<Rightarrow> booking list" where
  "order_by_created_at_desc [] = []"
| "order_by_created_at_desc (b # bs) = insert_desc b (order_by_created_at_desc bs)"

definition get_bookings :: "store \<Rightarrow> response" where
  "get_bookings store =
     (let bookings = order_by_created_at_desc store
      in Response 200 (JArr (map to_dict bookings)))"

subsection \<open>GET /api/stats\<close>













section \<open>Specification-level readings and example data\<close>


text \<open>A clock, a random source and a request to evaluate the handlers on.\<close>

definition example_env :: env where
  "example_env =
     \<lparr>now = Datetime (Date 2026 5 1) 9 5 0 0,
      utcnow = Datetime (Date 2026 5 1) 3 35 0 0,
      rand = (\<lambda>i. 7 * i + 3)\<rparr>"

definition example_request :: json where
  "example_request =
     JObj [(''name'', JStr ''Asha''), (''email'', JStr ''asha@example.in''),
           (''phone'', JStr ''9876543210''), (''package'', JStr ''Divine Journey''),
           (''date'', JStr ''2026-05-10''), (''persons'', JInt 2)]"

text \<open>The table after \<open>example_request\<close> has been booked into the empty table.\<close>

definition example_row :: booking where
  "example_row =
     \<lparr>id_pk = 1, name = ''Asha'', email = ''asha@example.in'', phone = ''9876543210'',
      package = ''Divine Journey'', persons = 2, date = Date 2026 5 10,
      status = Some ''PENDING'', booking_id = Some ''KDR090530741852'',
      amount = Some 65000, created_at = Some (Datetime (Date 2026 5 1) 3 35 0 0),
      special_requests = Some []\<rparr>"

definition example_store :: store where
  "example_store = [example_row]"

text \<open>
  A second booking made a minute later, and one made at the same instant as the first
  with other random digits.
\<close>

definition example_later_row :: booking where
  "example_later_row =
     example_row\<lparr>id_pk := 2, booking_id := Some ''KDR090601234567'',
                 created_at := Some (Datetime (Date 2026 5 1) 3 36 0 0)\<rparr>"

definition example_tie_env :: env where
  "example_tie_env = example_env\<lparr>rand := \<lambda>i. i\<rparr>"

definition example_tie_row :: booking where
  "example_tie_row = example_row\<lparr>id_pk := 2, booking_id := Some ''KDR090501234567''\<rparr>"




section \<open>Properties\<close>

lemma prices_get_spec: "prices_get (JStr p) 19500 = Inr (spec_unit_price p)"
  by (simp add: package_prices_def spec_unit_price_def)

lemma calculate_package_amount_int:
  "calculate_package_amount (JStr p) (JInt n) = Inr (JInt (spec_unit_price p * n))"
  by (simp add: calculate_package_amount_def bind_exn_def package_prices_def spec_unit_price_def)

subsection \<open>Decimal digits\<close>





subsection \<open>The required fields\<close>

lemma check_required_dict:
  "check_required (JObj kvs) fs = Inr (find (\<lambda>f. f \<notin> set (map fst kvs)) fs)"
  by (induction fs) simp_all

lemma find_first_split:
  "find P xs = Some x \<Longrightarrow> \<exists>pre post. xs = pre @ x # post \<and> (\<forall>y\<in>set pre. \<not> P y) \<and> P x"
proof (induction xs)
  case Nil
  then show ?case by simp
next
  case (Cons a xs)
  show ?case
  proof (cases "P a")
    case True
    with Cons.prems have "a = x" by simp
    with True have "a # xs = [] @ x # xs \<and> (\<forall>y\<in>set []. \<not> P y) \<and> P x" by simp
    then show ?thesis by blast
  next
    case False
    with Cons.prems have "find P xs = Some x" by simp
    from Cons.IH [OF this] obtain pre post
      where "xs = pre @ x # post" "\<forall>y\<in>set pre. \<not> P y" "P x" by blast
    with False have "a # xs = (a # pre) @ x # post \<and> (\<forall>y\<in>set (a # pre). \<not> P y) \<and> P x"
      by simp
    then show ?thesis by blast
  qed
qed

lemma create_booking_missing:
  assumes "find (\<lambda>f. f \<notin> set (map fst kvs)) required_fields = Some f"
  shows "create_booking e store (JObj kvs) =
           (Response 400 (JObj [(''message'', JStr (''Missing required field: '' @ f))]), store)"
  using assms by (simp add: create_booking_def check_required_dict)

lemma check_required_container:
  "is_container data \<Longrightarrow>
     check_required data fs = Inr (find (\<lambda>f. py_contains data f = Inr False) fs)"
proof (induction fs)
  case Nil
  then show ?case by simp
next
  case (Cons f fs)
  from Cons.prems have "py_contains data f = Inr True \<or> py_contains data f = Inr False"
    by (cases data) simp_all
  with Cons show ?case by auto
qed

lemma not_False_contains:
  "is_container data \<Longrightarrow> py_contains data f \<noteq> Inr False \<Longrightarrow> py_contains data f = Inr True"
  by (cases data) simp_all

subsection \<open>Status updates\<close>




subsection \<open>A successful booking\<close>

lemma map_of_Some_key: "map_of kvs k = Some v \<Longrightarrow> k \<in> set (map fst kvs)"
  by (metis map_of_eq_None_iff option.distinct(1) set_map)

lemma example_strptime: "strptime_ymd (JStr ''2026-05-10'') = Inr (Date 2026 5 10)"
  by (simp add: match_ymd_def month_alts_def day_alts_def two_chars_def one_char_def
      is_digit_def digit_val_def string_digits_def days_in_month_def is_leap_def)

lemma example_booking_id: "generate_booking_id example_env = ''KDR090530741852''"
  by code_simp

lemma create_booking_ok:
  assumes "map_of kvs ''name'' = Some (JStr n)"
    and "map_of kvs ''email'' = Some (JStr em)"
    and "map_of kvs ''phone'' = Some (JStr ph)"
    and "map_of kvs ''package'' = Some (JStr p)"
    and "map_of kvs ''date'' = Some (JStr ds)"
    and "map_of kvs ''persons'' = Some (JInt k)"
    and "strptime_ymd (JStr ds) = Inr d"
    and "col_string_null (case map_of kvs ''special_requests'' of None \<Rightarrow> JStr [] | Some v \<Rightarrow> v)
           = Inr sr"
    and "Some (generate_booking_id e) \<notin> set (map booking_id store)"
  shows "create_booking e store (JObj kvs) =
    (let b = \<lparr>id_pk = next_id store, name = n, email = em, phone = ph, package = p,
               persons = k, date = d, status = Some ''PENDING'',
               booking_id = Some (generate_booking_id e),
               amount = Some (spec_unit_price p * k), created_at = Some (utcnow e),
               special_requests = sr\<rparr>
     in (Response 201
           (JObj [(''message'', JStr ''Booking created successfully''),
                  (''booking_id'', JStr (generate_booking_id e)),
                  (''booking'', to_dict b)]),
         store @ [b]))"
proof -
  have "find (\<lambda>f. f \<notin> set (map fst kvs)) required_fields = None"
    using assms(1-6) by (auto simp: find_None_iff required_fields_def dest: map_of_Some_key)
  then have c: "check_required (JObj kvs) required_fields = Inr None"
    by (simp add: check_required_dict)
  have m: "make_booking e (JObj kvs) =
      Inr \<lparr>o_name = JStr n, o_email = JStr em, o_phone = JStr ph, o_package = JStr p,
           o_persons = JInt k, o_date = d, o_booking_id = generate_booking_id e,
           o_amount = JInt (spec_unit_price p * k),
           o_special_requests = (case map_of kvs ''special_requests'' of None \<Rightarrow> JStr [] | Some v \<Rightarrow> v)\<rparr>"
    using assms(1-7)
    by (simp add: make_booking_def bind_exn_def calculate_package_amount_int Let_def)
  show ?thesis
    using assms(8,9)
    by (simp add: create_booking_def c m bind_exn_def db_add_commit_def Let_def opt_json_def)
qed

lemma example_create:
  "create_booking example_env [] example_request =
     (Response 201
        (JObj [(''message'', JStr ''Booking created successfully''),
               (''booking_id'', JStr ''KDR090530741852''),
               (''booking'', to_dict example_row)]),
      example_store)"
proof -
  have "create_booking example_env [] example_request = 
    (let b = \<lparr>id_pk = next_id [], name = ''Asha'', email = ''asha@example.in'', phone = ''9876543210'', package = ''Divine Journey'',
               persons = 2, date = Date 2026 5 10, status = Some ''PENDING'',
               booking_id = Some (generate_booking_id example_env),
               amount = Some (spec_unit_price ''Divine Journey'' * 2), created_at = Some (utcnow example_env),
               special_requests = Some []\<rparr>
     in (Response 201
           (JObj [(''message'', JStr ''Booking created successfully''),
                  (''booking_id'', JStr (generate_booking_id example_env)),
                  (''booking'', to_dict b)]),
         [] @ [b]))"
    unfolding example_request_def
    by (rule create_booking_ok [where ds = "''2026-05-10''"])
      (simp_all add: example_strptime del: strptime_ymd.simps)
  moreover have "utcnow example_env = Datetime (Date 2026 5 1) 3 35 0 0"
    by (simp add: example_env_def)
  ultimately show ?thesis
    by (simp add: example_booking_id next_id_def spec_unit_price_def
        example_row_def example_store_def Let_def)
qed

subsection \<open>What a 201 answer means\<close>

lemma create_booking_201:
  assumes "create_booking e store (JObj kvs) = (Response 201 body, store')"
  shows "\<exists>obj b. make_booking e (JObj kvs) = Inr obj \<and> db_add_commit e store obj = Inr (b, store')
           \<and> body = JObj [(''message'', JStr ''Booking created successfully''),
                          (''booking_id'', opt_json JStr (booking_id b)),
                          (''booking'', to_dict b)]"
  using assms
  by (auto simp: create_booking_def bind_exn_def split: sum.splits option.splits prod.splits)

lemma make_booking_special:
  "make_booking e (JObj kvs) = Inr obj \<Longrightarrow>
     o_special_requests obj = (case map_of kvs ''special_requests'' of None \<Rightarrow> JStr [] | Some v \<Rightarrow> v)"
  by (auto simp: make_booking_def bind_exn_def Let_def split: sum.splits option.splits)

lemma db_add_commit_row:
  "db_add_commit e store obj = Inr (b, store') \<Longrightarrow>
     store' = store @ [b] \<and> col_string_null (o_special_requests obj) = Inr (special_requests b)"
  by (auto simp: db_add_commit_def bind_exn_def Let_def split: sum.splits if_splits)

subsection \<open>Ordering by creation time\<close>

lemma mset_insert_desc: "mset (insert_desc b xs) = add_mset b (mset xs)"
  by (induction xs) simp_all

lemma mset_order_by: "mset (order_by_created_at_desc store) = mset store"
  by (induction store) (simp_all add: mset_insert_desc)

lemma set_insert_desc: "set (insert_desc b xs) = insert b (set xs)"
  by (induction xs) auto

lemma sorted_insert_desc:
  "sorted_wrt (\<lambda>x y. created_key y \<le> created_key x) xs
   \<Longrightarrow> sorted_wrt (\<lambda>x y. created_key y \<le> created_key x) (insert_desc b xs)"
proof (induction xs)
  case Nil
  then show ?case by simp
next
  case (Cons a xs)
  show ?case
  proof (cases "created_key a \<le> created_key b")
    case True
    with Cons.prems show ?thesis by (auto intro: order_trans)
  next
    case False
    then have "created_key b \<le> created_key a" by simp
    with Cons show ?thesis by (auto simp: set_insert_desc)
  qed
qed

lemma sorted_order_by:
  "sorted_wrt (\<lambda>x y. created_key y \<le> created_key x) (order_by_created_at_desc store)"
  by (induction store) (simp_all add: sorted_insert_desc)

lemma sorted_distinct_strict:
  "sorted_wrt (\<lambda>x y. f y \<le> f x) xs \<Longrightarrow> distinct (map f xs)
   \<Longrightarrow> sorted_wrt (\<lambda>x y. (f y :: 'k :: linorder) < f x) xs"
proof (induction xs)
  case Nil
  then show ?case by simp
next
  case (Cons a xs)
  have "f y < f a" if "y \<in> set xs" for y
  proof -
    from that Cons.prems(1) have "f y \<le> f a" by simp
    moreover have "f y \<noteq> f a"
    proof
      assume "f y = f a"
      with that have "f a \<in> f ` set xs" by (metis imageI)
      with Cons.prems(2) show False by simp
    qed
    ultimately show ?thesis by simp
  qed
  with Cons show ?case by simp
qed

lemma inj_datetime_key: "inj datetime_key"
proof (rule injI)
  fix s t assume "datetime_key s = datetime_key t"
  then show "s = t"
    by (cases s, cases t) (auto simp: datetime_key_def date_key_def date.expand)
qed

lemma distinct_created_key:
  assumes "distinct (map created_at store)"
  shows "distinct (map created_key store)"
proof -
  have "inj (map_option datetime_key)"
    by (simp add: inj_datetime_key option.inj_map)
  then have k: "created_key x = created_key y \<Longrightarrow> created_at x = created_at y" for x y
    by (simp add: created_key_def inj_eq)
  from assms show ?thesis
  proof (induction store)
    case Nil
    then show ?case by simp
  next
    case (Cons a store)
    have "created_key a \<notin> set (map created_key store)"
    proof
      assume "created_key a \<in> set (map created_key store)"
      then obtain x where x: "x \<in> set store" and e: "created_key a = created_key x" by auto
      from k [OF e] x have "created_at a \<in> set (map created_at store)" by simp
      with Cons.prems show False by simp
    qed
    with Cons show ?case by simp
  qed
qed

subsection \<open>The statistics queries\<close>







section \<open>Claims\<close>

text \<open>
  C2. For every package name \<open>p\<close> and every integer \<open>n\<close> (so for every positive one),
  \<open>calculate_package_amount\<close> returns the unit price of \<open>p\<close> times \<open>n\<close>, where the
  unit price is 19500 for Sacred Darshan, 32500 for Divine Journey, 58000 for Celestial
  Expedition, and 19500 for every other name; the result is never an error.
\<close>

theorem C2_calculate_package_amount:
  "calculate_package_amount (JStr p) (JInt n) =
     Inr (JInt ((if p = ''Sacred Darshan'' then 19500
                 else if p = ''Divine Journey'' then 32500
                 else if p = ''Celestial Expedition'' then 58000
                 else 19500) * n))"
  by (simp add: calculate_package_amount_def bind_exn_def package_prices_def)

theorem C2_calculate_package_amount_witness:
  "calculate_package_amount (JStr ''Divine Journey'') (JInt 2) = Inr (JInt 65000)
   \<and> calculate_package_amount (JStr ''Sacred Darshan'') (JInt 3) = Inr (JInt 58500)
   \<and> calculate_package_amount (JStr ''Celestial Expedition'') (JInt 1) = Inr (JInt 58000)
   \<and> calculate_package_amount (JStr ''Char Dham'') (JInt 4) = Inr (JInt 78000)"
  using C2_calculate_package_amount [of "''Divine Journey''" 2]
    C2_calculate_package_amount [of "''Sacred Darshan''" 3]
    C2_calculate_package_amount [of "''Celestial Expedition''" 1]
    C2_calculate_package_amount [of "''Char Dham''" 4]
  by simp



text \<open>
  C4, as the code has it. For every request whose body is a JSON object (or a list or
  a string, the other values on which \<^verbatim>\<open>in\<close> is defined) and lacks at least one of the
  required fields name, email, phone, package, date, persons, \<open>create_booking\<close>
  answers 400 with the message naming the first missing field in that order (every
  field before it is present), and the table is unchanged.
\<close>

theorem C4_missing_field:
  assumes "is_container data"
    and "\<exists>f\<in>set required_fields. py_contains data f = Inr False"
  shows "\<exists>pre f post. required_fields = pre @ f # post
           \<and> (\<forall>g\<in>set pre. py_contains data g = Inr True) \<and> py_contains data f = Inr False
           \<and> create_booking e store data =
               (Response 400 (JObj [(''message'', JStr (''Missing required field: '' @ f))]), store)"
proof -
  let ?P = "\<lambda>f. py_contains data f = Inr False"
  from assms(2) have "find ?P required_fields \<noteq> None"
    by (auto simp: find_None_iff)
  then obtain f where f: "find ?P required_fields = Some f" by blast
  from find_first_split [OF f] obtain pre post
    where d: "required_fields = pre @ f # post" and p: "\<forall>y\<in>set pre. \<not> ?P y" and m: "?P f"
    by blast
  from p assms(1) have p': "\<forall>g\<in>set pre. py_contains data g = Inr True"
    by (blast intro: not_False_contains)
  have "create_booking e store data =
      (Response 400 (JObj [(''message'', JStr (''Missing required field: '' @ f))]), store)"
    using f by (simp add: create_booking_def check_required_container [OF assms(1)])
  with d p' m show ?thesis by blast
qed

theorem C4_missing_field_witness:
  "create_booking example_env []
     (JObj [(''name'', JStr ''Asha''), (''phone'', JStr ''9876543210''), (''persons'', JInt 2)]) =
     (Response 400 (JObj [(''message'', JStr ''Missing required field: email'')]), [])
   \<and> create_booking example_env [] (JArr []) =
     (Response 400 (JObj [(''message'', JStr ''Missing required field: name'')]), [])"
proof -
  let ?data = "JObj [(''name'', JStr ''Asha''), (''phone'', JStr ''9876543210''), (''persons'', JInt 2)]"
  have direct: "create_booking example_env [] ?data =
      (Response 400 (JObj [(''message'', JStr ''Missing required field: email'')]), [])"
    "create_booking example_env [] (JArr []) =
      (Response 400 (JObj [(''message'', JStr ''Missing required field: name'')]), [])"
    by (simp_all add: create_booking_def required_fields_def)
  have c: "is_container ?data" by simp
  have "\<exists>f\<in>set required_fields. py_contains ?data f = Inr False"
    by (simp add: required_fields_def)
  from C4_missing_field [OF c this, of example_env "[]"] obtain f
    where "create_booking example_env [] ?data =
             (Response 400 (JObj [(''message'', JStr (''Missing required field: '' @ f))]), [])"
    by blast
  with direct show ?thesis by simp
qed

text \<open>
  C4 as stated fails: a body that is null or a number has none of the required fields,
  yet the membership test raises on it and the answer is 500, not a client error.
\<close>

theorem C4_counterexample:
  "create_booking example_env example_store JNull =
     (Failure 500 ''Error creating booking'' TypeError, example_store)
   \<and> create_booking example_env example_store (JInt 5) =
     (Failure 500 ''Error creating booking'' TypeError, example_store)
   \<and> \<not> is_client_error 500"
  by (simp add: create_booking_def required_fields_def is_client_error_def)










text \<open>
  C7, as the code has it. When all the required fields are present and
  \<open>strptime\<close> raises on the value of date, \<open>create_booking\<close> answers with the
  generic failure of the handler, status 500, carrying that exception, and the table is
  unchanged.
\<close>

theorem C7_unparsed_date:
  assumes "\<forall>f\<in>set required_fields. f \<in> set (map fst kvs)"
    and "map_of kvs ''date'' = Some v"
    and "strptime_ymd v = Inl ex"
  shows "create_booking e store (JObj kvs) = (Failure 500 ''Error creating booking'' ex, store)
         \<and> status_code (fst (create_booking e store (JObj kvs))) = 500"
proof -
  from assms(1) have "find (\<lambda>f. f \<notin> set (map fst kvs)) required_fields = None"
    by (simp add: find_None_iff)
  then have c: "check_required (JObj kvs) required_fields = Inr None"
    by (simp add: check_required_dict)
  have "\<And>f. f \<in> set required_fields \<Longrightarrow> \<exists>w. map_of kvs f = Some w"
    using assms(1) by (metis map_of_eq_None_iff not_None_eq set_map)
  then obtain w1 w2 w3 w4 w5 where
    "map_of kvs ''name'' = Some w1" "map_of kvs ''email'' = Some w2"
    "map_of kvs ''phone'' = Some w3" "map_of kvs ''package'' = Some w4"
    "map_of kvs ''persons'' = Some w5"
    unfolding required_fields_def by (metis list.set_intros(1) list.set_intros(2))
  with assms(2,3) have "make_booking e (JObj kvs) = Inl ex"
    by (simp add: make_booking_def bind_exn_def)
  with c have "create_booking e store (JObj kvs) = (Failure 500 ''Error creating booking'' ex, store)"
    by (simp add: create_booking_def bind_exn_def)
  then show ?thesis by simp
qed

theorem C7_unparsed_date_witness:
  "create_booking example_env example_store
       (JObj [(''name'', JStr ''Asha''), (''email'', JStr ''asha@example.in''),
              (''phone'', JStr ''9876543210''), (''package'', JStr ''Divine Journey''),
              (''date'', JStr ''2026-02-30''), (''persons'', JInt 2)]) =
     (Failure 500 ''Error creating booking'' ValueError, example_store)"
proof -
  let ?kvs = "[(''name'', JStr ''Asha''), (''email'', JStr ''asha@example.in''),
              (''phone'', JStr ''9876543210''), (''package'', JStr ''Divine Journey''),
              (''date'', JStr ''2026-02-30''), (''persons'', JInt 2)]"
  have a: "\<forall>f\<in>set required_fields. f \<in> set (map fst ?kvs)"
    by (simp add: required_fields_def)
  have b: "map_of ?kvs ''date'' = Some (JStr ''2026-02-30'')" by simp
  have c: "strptime_ymd (JStr ''2026-02-30'') = Inl ValueError"
    by (simp add: match_ymd_def month_alts_def day_alts_def two_chars_def one_char_def
      is_digit_def digit_val_def string_digits_def days_in_month_def is_leap_def)
  from C7_unparsed_date [OF a b c] show ?thesis by blast
qed

text \<open>
  C7 as stated fails: a date that is not in the form year-month-day is answered with
  500, which is not a client error.
\<close>

theorem C7_counterexample:
  "status_code (fst (create_booking example_env example_store
       (JObj [(''name'', JStr ''Asha''), (''email'', JStr ''asha@example.in''),
              (''phone'', JStr ''9876543210''), (''package'', JStr ''Divine Journey''),
              (''date'', JStr ''10-05-2026''), (''persons'', JInt 2)]))) = 500
   \<and> \<not> is_client_error 500"
proof -
  have "strptime_ymd (JStr ''10-05-2026'') = Inl ValueError"
    by (simp add: match_ymd_def is_digit_def string_digits_def)
  then have "create_booking example_env example_store
       (JObj [(''name'', JStr ''Asha''), (''email'', JStr ''asha@example.in''),
              (''phone'', JStr ''9876543210''), (''package'', JStr ''Divine Journey''),
              (''date'', JStr ''10-05-2026''), (''persons'', JInt 2)]) =
     (Failure 500 ''Error creating booking'' ValueError, example_store)"
    by (simp add: create_booking_def check_required_dict required_fields_def make_booking_def
        bind_exn_def del: strptime_ymd.simps)
  then show ?thesis by (simp add: is_client_error_def)
qed

text \<open>
  C10. Whenever a request whose JSON object has no special_requests field is accepted
  with 201, exactly one row has been appended, its special_requests is the empty string
  (not null), and the booking in the response body has the empty string under
  special_requests.
\<close>

theorem C10_special_requests_default:
  assumes "''special_requests'' \<notin> set (map fst kvs)"
    and "create_booking e store (JObj kvs) = (Response 201 body, store')"
  shows "\<exists>b. store' = store @ [b] \<and> special_requests b = Some []
           \<and> body = JObj [(''message'', JStr ''Booking created successfully''),
                          (''booking_id'', opt_json JStr (booking_id b)),
                          (''booking'', to_dict b)]
           \<and> py_getitem (to_dict b) ''special_requests'' = Inr (JStr [])"
proof -
  from create_booking_201 [OF assms(2)] obtain obj b
    where m: "make_booking e (JObj kvs) = Inr obj"
      and c: "db_add_commit e store obj = Inr (b, store')"
      and r: "body = JObj [(''message'', JStr ''Booking created successfully''),
                           (''booking_id'', opt_json JStr (booking_id b)),
                           (''booking'', to_dict b)]"
    by blast
  from assms(1) have "map_of kvs ''special_requests'' = None"
    by (simp add: map_of_eq_None_iff)
  with make_booking_special [OF m] have "o_special_requests obj = JStr []" by simp
  with db_add_commit_row [OF c] have s: "store' = store @ [b]" "special_requests b = Some []"
    by simp_all
  from s(2) have "py_getitem (to_dict b) ''special_requests'' = Inr (JStr [])"
    by (simp add: to_dict_def opt_json_def)
  with s r show ?thesis by blast
qed

theorem C10_special_requests_default_witness:
  "''special_requests'' \<notin> set (map fst [(''name'', JStr ''Asha''), (''email'', JStr ''asha@example.in''),
           (''phone'', JStr ''9876543210''), (''package'', JStr ''Divine Journey''),
           (''date'', JStr ''2026-05-10''), (''persons'', JInt 2)])
   \<and> snd (create_booking example_env [] example_request) = [example_row]
   \<and> special_requests example_row = Some []
   \<and> py_getitem (to_dict example_row) ''special_requests'' = Inr (JStr [])"
proof -
  let ?kvs = "[(''name'', JStr ''Asha''), (''email'', JStr ''asha@example.in''),
           (''phone'', JStr ''9876543210''), (''package'', JStr ''Divine Journey''),
           (''date'', JStr ''2026-05-10''), (''persons'', JInt 2)]"
  have a: "''special_requests'' \<notin> set (map fst ?kvs)" by simp
  have c: "create_booking example_env [] (JObj ?kvs) =
     (Response 201
        (JObj [(''message'', JStr ''Booking created successfully''),
               (''booking_id'', JStr ''KDR090530741852''),
               (''booking'', to_dict example_row)]),
      [example_row])"
    using example_create by (simp add: example_request_def example_store_def)
  from C10_special_requests_default [OF a c] obtain b
    where "[example_row] = [] @ [b]" "special_requests b = Some []"
      "py_getitem (to_dict b) ''special_requests'' = Inr (JStr [])"
    by blast
  then have "special_requests example_row = Some []"
    "py_getitem (to_dict example_row) ''special_requests'' = Inr (JStr [])"
    by simp_all
  with a c show ?thesis by (simp add: example_request_def)
qed

text \<open>
  C8, as the code has it. For every table, the list operation answers 200 with all the
  booking records, each once, ordered by \<open>created_at\<close> descending whatever the
  insertion order: no record comes before one created later. Where no two bookings have
  the same \<open>created_at\<close>, the order is strictly descending.
\<close>

theorem C8_get_bookings:
  "\<exists>bs. get_bookings store = Response 200 (JArr (map to_dict bs))
        \<and> mset bs = mset store
        \<and> sorted_wrt (\<lambda>x y. created_key y \<le> created_key x) bs
        \<and> (distinct (map created_at store)
             \<longrightarrow> sorted_wrt (\<lambda>x y. created_key y < created_key x) bs)"
proof -
  let ?bs = "order_by_created_at_desc store"
  have g: "get_bookings store = Response 200 (JArr (map to_dict ?bs))"
    by (simp add: get_bookings_def)
  have s: "sorted_wrt (\<lambda>x y. created_key y \<le> created_key x) ?bs"
    by (rule sorted_order_by)
  have "sorted_wrt (\<lambda>x y. created_key y < created_key x) ?bs"
    if "distinct (map created_at store)"
  proof -
    from that have "distinct (map created_key store)" by (rule distinct_created_key)
    moreover have "mset (map created_key ?bs) = mset (map created_key store)"
      by (simp add: mset_order_by)
    ultimately have "distinct (map created_key ?bs)"
      by (metis mset_eq_imp_distinct_iff)
    with s show ?thesis by (rule sorted_distinct_strict)
  qed
  with g s mset_order_by [of store] show ?thesis by blast
qed

theorem C8_get_bookings_witness:
  "distinct (map created_at [example_row, example_later_row])
   \<and> get_bookings [example_row, example_later_row] =
       Response 200 (JArr [to_dict example_later_row, to_dict example_row])
   \<and> created_key example_row < created_key example_later_row"
proof -
  let ?store = "[example_row, example_later_row]"
  have k: "created_key example_row < created_key example_later_row"
    by (simp add: created_key_def datetime_key_def date_key_def example_row_def
        example_later_row_def)
  have d: "distinct (map created_at ?store)"
    by (simp add: example_row_def example_later_row_def)
  have o: "order_by_created_at_desc ?store = [example_later_row, example_row]"
    using k by simp
  from C8_get_bookings [of ?store] d obtain bs
    where "get_bookings ?store = Response 200 (JArr (map to_dict bs))"
      and "sorted_wrt (\<lambda>x y. created_key y < created_key x) bs"
    by blast
  moreover have "get_bookings ?store = Response 200 (JArr (map to_dict [example_later_row, example_row]))"
    by (simp only: get_bookings_def o Let_def)
  ultimately show ?thesis using k d by simp
qed

text \<open>
  C8 as stated fails: booking the example request again at the same instant, with other
  random digits, gives two bookings with the same creation time; both are listed, and
  the second is not strictly earlier than the first.
\<close>

theorem C8_counterexample:
  "snd (create_booking example_tie_env example_store example_request)
     = [example_row, example_tie_row]
   \<and> get_bookings [example_row, example_tie_row] =
       Response 200 (JArr [to_dict example_row, to_dict example_tie_row])
   \<and> created_at example_row = created_at example_tie_row
   \<and> \<not> created_key example_tie_row < created_key example_row"
proof -
  have g: "generate_booking_id example_tie_env = ''KDR090501234567''"
    by code_simp
  have "create_booking example_tie_env example_store example_request =
    (let b = \<lparr>id_pk = next_id example_store, name = ''Asha'', email = ''asha@example.in'',
               phone = ''9876543210'', package = ''Divine Journey'', persons = 2,
               date = Date 2026 5 10, status = Some ''PENDING'',
               booking_id = Some (generate_booking_id example_tie_env),
               amount = Some (spec_unit_price ''Divine Journey'' * 2),
               created_at = Some (utcnow example_tie_env),
               special_requests = Some []\<rparr>
     in (Response 201
           (JObj [(''message'', JStr ''Booking created successfully''),
                  (''booking_id'', JStr (generate_booking_id example_tie_env)),
                  (''booking'', to_dict b)]),
         example_store @ [b]))"
    unfolding example_request_def
    by (rule create_booking_ok [where ds = "''2026-05-10''"])
      (simp_all add: example_strptime g example_store_def example_row_def
        del: strptime_ymd.simps)
  moreover have "utcnow example_tie_env = Datetime (Date 2026 5 1) 3 35 0 0"
    by (simp add: example_tie_env_def example_env_def)
  ultimately have 1: "snd (create_booking example_tie_env example_store example_request)
     = [example_row, example_tie_row]"
    by (simp add: g next_id_def spec_unit_price_def example_row_def example_store_def
        example_tie_row_def Let_def)
  have e: "created_at example_row = created_at example_tie_row"
    by (simp add: example_tie_row_def)
  then have k: "created_key example_row = created_key example_tie_row"
    by (simp add: created_key_def)
  then have o: "order_by_created_at_desc [example_row, example_tie_row]
      = [example_row, example_tie_row]"
    by simp
  have 2: "get_bookings [example_row, example_tie_row] =
       Response 200 (JArr [to_dict example_row, to_dict example_tie_row])"
    by (simp only: get_bookings_def o Let_def list.map)
  have 3: "\<not> created_key example_tie_row < created_key example_row"
    by (simp add: k)
  from 1 2 e 3 show ?thesis by blast
qed




end
